theory Spec2Isabelle
  imports Complex_Main "HOL-Library.AList"
begin

section \<open>Values of the request bodies and of the stored documents\<close>

text \<open>
  The handlers take their bodies as \<^verbatim>\<open>Dict[str, Any]\<close>: whatever JSON the client
  sent, already parsed. A dictionary keeps its insertion order and is an association list
  here; \<open>map_of\<close> reads a key. \<open>JNull\<close> is Python's \<^verbatim>\<open>None\<close>, \<open>JFloat\<close> a finite
  float.
\<close>

datatype json =
    JNull
  | JBool bool
  | JInt int
  | JFloat real
  | JStr string
  | JList "json list"
  | JDict "(string \<times> json) list"

type_synonym dict = "(string \<times> json) list"

datatype exn =
    KeyError string
  | ValueError string
  | TypeError
  | AttributeError
  | InvalidId

text \<open>Python's truth value of an object, as \<^verbatim>\<open>not x\<close> and \<^verbatim>\<open>if x:\<close> test it.\<close>

fun truthy :: "json \<Rightarrow> bool" where
  "truthy JNull = False"
| "truthy (JBool b) = b"
| "truthy (JInt i) = (i \<noteq> 0)"
| "truthy (JFloat r) = (r \<noteq> 0)"
| "truthy (JStr s) = (s \<noteq> [])"
| "truthy (JList xs) = (xs \<noteq> [])"
| "truthy (JDict d) = (d \<noteq> [])"

fun isinstance_str :: "json \<Rightarrow> bool" where
  "isinstance_str (JStr s) = True"
| "isinstance_str v = False"

text \<open>\<^verbatim>\<open>isinstance(x, int)\<close>: a Python bool is an int, with value 0 or 1.\<close>

fun isinstance_int :: "json \<Rightarrow> bool" where
  "isinstance_int (JInt i) = True"
| "isinstance_int (JBool b) = True"
| "isinstance_int v = False"

fun int_value :: "json \<Rightarrow> int" where
  "int_value (JInt i) = i"
| "int_value (JBool b) = (if b then 1 else 0)"
| "int_value v = 0"

text \<open>\<^verbatim>\<open>d.get(k)\<close> gives \<^verbatim>\<open>None\<close> for a missing key; \<^verbatim>\<open>d[k]\<close> raises KeyError.\<close>

definition dict_get :: "dict \<Rightarrow> string \<Rightarrow> json" where
  "dict_get d k = (case map_of d k of None \<Rightarrow> JNull | Some v \<Rightarrow> v)"

definition dict_index :: "dict \<Rightarrow> string \<Rightarrow> exn + json" where
  "dict_index d k = (case map_of d k of None \<Rightarrow> Inl (KeyError k) | Some v \<Rightarrow> Inr v)"

section \<open>models.py\<close>

record Address =
  city :: json
  country :: json

definition Address_init :: "json \<Rightarrow> json \<Rightarrow> exn + Address" where
  "Address_init c k =
     (if \<not> truthy c \<or> \<not> truthy k then Inl (ValueError ''City and country are required'')
      else Inr \<lparr>city = c, country = k\<rparr>)"

definition Address_to_dict :: "Address \<Rightarrow> dict" where
  "Address_to_dict a = [(''city'', city a), (''country'', country a)]"

record Student =
  name :: json
  age :: json
  address :: Address

definition Student_init :: "json \<Rightarrow> json \<Rightarrow> json \<Rightarrow> exn + Student" where
  "Student_init n a ad =
     (if \<not> truthy n \<or> \<not> isinstance_str n then
        Inl (ValueError ''Name must be a non-empty string'')
      else if \<not> isinstance_int a \<or> int_value a < 0 then
        Inl (ValueError ''Age must be a non-negative integer'')
      else (case ad of
          JDict d \<Rightarrow>
            (case Address_init (dict_get d ''city'') (dict_get d ''country'') of
               Inl e \<Rightarrow> Inl e
             | Inr x \<Rightarrow> Inr \<lparr>name = n, age = a, address = x\<rparr>)
        | _ \<Rightarrow> Inl (ValueError ''Address must be a dictionary'')))"

definition Student_to_dict :: "Student \<Rightarrow> dict" where
  "Student_to_dict s =
     [(''name'', name s), (''age'', age s), (''address'', JDict (Address_to_dict (address s)))]"

text \<open>The three subscripts are evaluated in order, so the first missing key is the one reported.\<close>

definition Student_from_dict :: "dict \<Rightarrow> exn + Student" where
  "Student_from_dict data =
     (case dict_index data ''name'' of
        Inl e \<Rightarrow> Inl e
      | Inr n \<Rightarrow>
     (case dict_index data ''age'' of
        Inl e \<Rightarrow> Inl e
      | Inr a \<Rightarrow>
     (case dict_index data ''address'' of
        Inl e \<Rightarrow> Inl e
      | Inr ad \<Rightarrow> Student_init n a ad)))"

section \<open>The storage collaborator\<close>

text \<open>
  The collection \<^verbatim>\<open>db.students\<close> is the list of stored documents in storage order,
  each under its \<^verbatim>\<open>_id\<close>. The driver and the database are not part of the repository;
  their operations are written down here as the handlers use them.
\<close>

type_synonym oid = string
type_synonym collection = "(oid \<times> dict) list"

definition is_hex :: "char \<Rightarrow> bool" where
  "is_hex c = (c \<in> set ''0123456789abcdefABCDEF'')"

definition lower_hex :: "char \<Rightarrow> char" where
  "lower_hex c =
     (if c = CHR ''A'' then CHR ''a'' else if c = CHR ''B'' then CHR ''b''
      else if c = CHR ''C'' then CHR ''c'' else if c = CHR ''D'' then CHR ''d''
      else if c = CHR ''E'' then CHR ''e'' else if c = CHR ''F'' then CHR ''f'' else c)"

text \<open>
  Modelled from the spec: the constructor \<^verbatim>\<open>bson.ObjectId\<close> is missing from the sources.
  The identifier is "a 24-character hex object identifier"; any other string is malformed and
  the constructor raises \<^verbatim>\<open>InvalidId\<close> (\<open>None\<close> here). Two spellings of the same twelve
  bytes are the same identifier, and \<^verbatim>\<open>str\<close> prints it in lower case.
\<close>

definition ObjectId :: "string \<Rightarrow> oid option" where
  "ObjectId s = (if length s = 24 \<and> list_all is_hex s then Some (map lower_hex s) else None)"

definition str_oid :: "oid \<Rightarrow> string" where
  "str_oid i = i"

record query =
  q_country :: "string option"
  q_age_gte :: "int option"

text \<open>
  Modelled from the spec: the database's filter evaluation is missing from the sources. The
  country filter is an "exact match against address.country", the age filter an "inclusive
  lower bound: records with age \<ge> value"; a value that is not a number is not above any bound.
\<close>

definition country_matches :: "dict \<Rightarrow> string \<Rightarrow> bool" where
  "country_matches doc c =
     (case map_of doc ''address'' of
        Some (JDict ad) \<Rightarrow> map_of ad ''country'' = Some (JStr c)
      | _ \<Rightarrow> False)"

definition number_gte :: "json \<Rightarrow> int \<Rightarrow> bool" where
  "number_gte v a =
     (case v of
        JInt n \<Rightarrow> a \<le> n
      | JFloat r \<Rightarrow> real_of_int a \<le> r
      | _ \<Rightarrow> False)"

definition age_gte :: "dict \<Rightarrow> int \<Rightarrow> bool" where
  "age_gte doc a = (case map_of doc ''age'' of None \<Rightarrow> False | Some v \<Rightarrow> number_gte v a)"

definition matches :: "query \<Rightarrow> dict \<Rightarrow> bool" where
  "matches q doc =
     ((case q_country q of None \<Rightarrow> True | Some c \<Rightarrow> country_matches doc c) \<and>
      (case q_age_gte q of None \<Rightarrow> True | Some a \<Rightarrow> age_gte doc a))"

definition find :: "query \<Rightarrow> collection \<Rightarrow> collection" where
  "find q db = filter (\<lambda>entry. matches q (snd entry)) db"

definition to_list :: "nat \<Rightarrow> collection \<Rightarrow> collection" where
  "to_list n cursor = take n cursor"

definition find_one :: "oid \<Rightarrow> collection \<Rightarrow> dict option" where
  "find_one i db = map_of db i"

text \<open>
  Modelled from the spec: "insert-one returning a generated id". The identifier the storage
  generates is an argument; the document goes to the end of the collection.
\<close>

definition insert_one :: "oid \<Rightarrow> dict \<Rightarrow> collection \<Rightarrow> oid \<times> collection" where
  "insert_one new_id doc db = (new_id, db @ [(new_id, doc)])"

text \<open>
  Modelled from the spec: "update-one-by-id-with-merged-document". \<^verbatim>\<open>$set\<close> writes each
  given field into the matched document; the count of modified documents is 1 only when the
  document is different afterwards.
\<close>

definition apply_set :: "dict \<Rightarrow> dict \<Rightarrow> dict" where
  "apply_set upd doc = foldl (\<lambda>d kv. AList.update (fst kv) (snd kv) d) doc upd"

definition update_one :: "oid \<Rightarrow> dict \<Rightarrow> collection \<Rightarrow> nat \<times> collection" where
  "update_one i upd db =
     (case map_of db i of
        None \<Rightarrow> (0, db)
      | Some doc \<Rightarrow>
          (if apply_set upd doc = doc then (0, db)
           else (1, AList.update i (apply_set upd doc) db)))"

text \<open>Modelled from the spec: "delete-one-by-id"; the count of deleted documents is 0 or 1.\<close>

definition delete_one :: "oid \<Rightarrow> collection \<Rightarrow> nat \<times> collection" where
  "delete_one i db =
     (case map_of db i of
        None \<Rightarrow> (0, db)
      | Some doc \<Rightarrow> (1, AList.delete_aux i db))"

section \<open>routes.py\<close>

text \<open>
  A handler either returns (the status code of its route and the value it returns) or raises.
  \<open>HTTPException\<close> carries the status code and the detail; any other exception leaves the
  handler unhandled, which the framework turns into a server error. The details of the two
  field checks are f-strings that print the offending key and the allowed set in the set's
  own order; they are kept as the key alone.
\<close>

datatype detail =
    Text string
  | InvalidField string
  | InvalidAddressField json

datatype error =
    HTTPException nat detail
  | Unhandled exn

datatype response = Response nat "json option"

definition not_found :: error where
  "not_found = HTTPException 404 (Text ''Student not found'')"

subsection \<open>create_student\<close>

text \<open>\<^verbatim>\<open>str(e)\<close> of a KeyError is the key in quotes, of a ValueError its message.\<close>

definition except_KeyError_ValueError :: "exn \<Rightarrow> error" where
  "except_KeyError_ValueError e =
     (case e of
        KeyError k \<Rightarrow> HTTPException 400 (Text ([CHR 0x27] @ k @ [CHR 0x27]))
      | ValueError m \<Rightarrow> HTTPException 400 (Text m)
      | _ \<Rightarrow> Unhandled e)"

definition create_student :: "oid \<Rightarrow> dict \<Rightarrow> collection \<Rightarrow> (error + response) \<times> collection" where
  "create_student new_id student_data db =
     (case dict_index student_data ''name'' of
        Inl e \<Rightarrow> (Inl (except_KeyError_ValueError e), db)
      | Inr n \<Rightarrow>
     (case dict_index student_data ''age'' of
        Inl e \<Rightarrow> (Inl (except_KeyError_ValueError e), db)
      | Inr a \<Rightarrow>
     (case dict_index student_data ''address'' of
        Inl e \<Rightarrow> (Inl (except_KeyError_ValueError e), db)
      | Inr ad \<Rightarrow>
     (case Student_init n a ad of
        Inl e \<Rightarrow> (Inl (except_KeyError_ValueError e), db)
      | Inr student \<Rightarrow>
          (let (inserted_id, db') = insert_one new_id (Student_to_dict student) db
           in (Inr (Response 201 (Some (JDict [(''id'', JStr (str_oid inserted_id))]))), db'))))))"

subsection \<open>list_students\<close>

definition build_query :: "string option \<Rightarrow> int option \<Rightarrow> query" where
  "build_query country_param age_param =
     \<lparr>q_country = (case country_param of
                     None \<Rightarrow> None
                   | Some c \<Rightarrow> if c \<noteq> [] then Some c else None),
      q_age_gte = age_param\<rparr>"

definition project :: "dict \<Rightarrow> exn + json" where
  "project student =
     (case dict_index student ''name'' of
        Inl e \<Rightarrow> Inl e
      | Inr n \<Rightarrow>
     (case dict_index student ''age'' of
        Inl e \<Rightarrow> Inl e
      | Inr a \<Rightarrow> Inr (JDict [(''name'', n), (''age'', a)])))"

fun project_all :: "dict list \<Rightarrow> exn + json list" where
  "project_all [] = Inr []"
| "project_all (student # students) =
     (case project student of
        Inl e \<Rightarrow> Inl e
      | Inr p \<Rightarrow> (case project_all students of Inl e \<Rightarrow> Inl e | Inr ps \<Rightarrow> Inr (p # ps)))"

definition list_students :: "string option \<Rightarrow> int option \<Rightarrow> collection \<Rightarrow> error + response" where
  "list_students country_param age_param db =
     (let students = to_list 1000 (find (build_query country_param age_param) db)
      in case project_all (map snd students) of
           Inl e \<Rightarrow> Inl (Unhandled e)
         | Inr ps \<Rightarrow> Inr (Response 200 (Some (JDict [(''data'', JList ps)]))))"

subsection \<open>fetch_student\<close>

definition fetch_student :: "string \<Rightarrow> collection \<Rightarrow> error + response" where
  "fetch_student id_param db =
     (case ObjectId id_param of
        None \<Rightarrow> Inl (Unhandled InvalidId)
      | Some i \<Rightarrow>
     (case find_one i db of
        None \<Rightarrow> Inl not_found
      | Some student \<Rightarrow>
          Inr (Response 200 (Some (JDict (AList.update ''id'' (JStr (str_oid i)) student))))))"

subsection \<open>update_student\<close>

definition ALLOWED_TOP_LEVEL_FIELDS :: "string set" where
  "ALLOWED_TOP_LEVEL_FIELDS = {''name'', ''age'', ''address''}"

definition ALLOWED_ADDRESS_FIELDS :: "string set" where
  "ALLOWED_ADDRESS_FIELDS = {''city'', ''country''}"

text \<open>The first loop: the first key outside the allowed set ends the request with 400.\<close>

fun check_top_level :: "string list \<Rightarrow> error option" where
  "check_top_level [] = None"
| "check_top_level (key # keys) =
     (if key \<notin> ALLOWED_TOP_LEVEL_FIELDS then Some (HTTPException 400 (InvalidField key))
      else check_top_level keys)"

text \<open>
  \<^verbatim>\<open>for key in student_update['address']\<close> iterates whatever the client sent under
  \<^verbatim>\<open>address\<close>: the keys of a dictionary, the elements of a list, the characters of a
  string; anything else is not iterable.
\<close>

definition iter :: "json \<Rightarrow> exn + json list" where
  "iter v =
     (case v of
        JDict d \<Rightarrow> Inr (map (\<lambda>kv. JStr (fst kv)) d)
      | JList xs \<Rightarrow> Inr xs
      | JStr s \<Rightarrow> Inr (map (\<lambda>c. JStr [c]) s)
      | _ \<Rightarrow> Inl TypeError)"

text \<open>The second loop. Membership in a set hashes the key: a list or a dictionary cannot be.\<close>

fun check_address_keys :: "json list \<Rightarrow> error option" where
  "check_address_keys [] = None"
| "check_address_keys (key # keys) =
     (case key of
        JStr s \<Rightarrow>
          (if s \<notin> ALLOWED_ADDRESS_FIELDS then Some (HTTPException 400 (InvalidAddressField key))
           else check_address_keys keys)
      | JList xs \<Rightarrow> Some (Unhandled TypeError)
      | JDict d \<Rightarrow> Some (Unhandled TypeError)
      | _ \<Rightarrow> Some (HTTPException 400 (InvalidAddressField key)))"

definition validate_input_fields :: "dict \<Rightarrow> error option" where
  "validate_input_fields student_update =
     (case check_top_level (map fst student_update) of
        Some e \<Rightarrow> Some e
      | None \<Rightarrow>
     (case map_of student_update ''address'' of
        None \<Rightarrow> None
      | Some ad \<Rightarrow>
     (case iter ad of
        Inl e \<Rightarrow> Some (Unhandled e)
      | Inr keys \<Rightarrow> check_address_keys keys)))"

text \<open>\<^verbatim>\<open>k in v\<close> for a string \<open>k\<close>: a key of a dictionary, an element of a list, a substring of a string.\<close>

fun is_prefix :: "string \<Rightarrow> string \<Rightarrow> bool" where
  "is_prefix [] s = True"
| "is_prefix (c # cs) [] = False"
| "is_prefix (c # cs) (d # ds) = (c = d \<and> is_prefix cs ds)"

fun is_substring :: "string \<Rightarrow> string \<Rightarrow> bool" where
  "is_substring k [] = (k = [])"
| "is_substring k (d # ds) = (is_prefix k (d # ds) \<or> is_substring k ds)"

definition contains :: "json \<Rightarrow> string \<Rightarrow> exn + bool" where
  "contains v k =
     (case v of
        JDict d \<Rightarrow> Inr (k \<in> set (map fst d))
      | JList xs \<Rightarrow> Inr (JStr k \<in> set xs)
      | JStr s \<Rightarrow> Inr (is_substring k s)
      | _ \<Rightarrow> Inl TypeError)"

text \<open>\<^verbatim>\<open>v[k]\<close> and \<^verbatim>\<open>v[k] = x\<close> for a string \<open>k\<close>: only a dictionary takes a string subscript.\<close>

definition subscript :: "json \<Rightarrow> string \<Rightarrow> exn + json" where
  "subscript v k = (case v of JDict d \<Rightarrow> dict_index d k | _ \<Rightarrow> Inl TypeError)"

definition setitem :: "json \<Rightarrow> string \<Rightarrow> json \<Rightarrow> exn + json" where
  "setitem v k x = (case v of JDict d \<Rightarrow> Inr (JDict (AList.update k x d)) | _ \<Rightarrow> Inl TypeError)"

text \<open>\<^verbatim>\<open>student.get('address', {}).copy()\<close>: dictionaries and lists have a \<^verbatim>\<open>copy\<close>.\<close>

definition copy_address :: "dict \<Rightarrow> exn + json" where
  "copy_address student =
     (case map_of student ''address'' of
        None \<Rightarrow> Inr (JDict [])
      | Some (JDict d) \<Rightarrow> Inr (JDict d)
      | Some (JList xs) \<Rightarrow> Inr (JList xs)
      | Some _ \<Rightarrow> Inl AttributeError)"

definition merge_address_field :: "json \<Rightarrow> json \<Rightarrow> string \<Rightarrow> exn + json" where
  "merge_address_field target src k =
     (case contains src k of
        Inl e \<Rightarrow> Inl e
      | Inr present \<Rightarrow>
          (if present then
             (case subscript src k of Inl e \<Rightarrow> Inl e | Inr x \<Rightarrow> setitem target k x)
           else Inr target))"

definition build_update_data :: "dict \<Rightarrow> dict \<Rightarrow> exn + dict" where
  "build_update_data student student_update =
     (let d1 = (case map_of student_update ''name'' of None \<Rightarrow> [] | Some v \<Rightarrow> [(''name'', v)]);
          d2 = d1 @ (case map_of student_update ''age'' of None \<Rightarrow> [] | Some v \<Rightarrow> [(''age'', v)])
      in case map_of student_update ''address'' of
           None \<Rightarrow> Inr d2
         | Some src \<Rightarrow>
        (case copy_address student of
           Inl e \<Rightarrow> Inl e
         | Inr a0 \<Rightarrow>
        (case merge_address_field a0 src ''city'' of
           Inl e \<Rightarrow> Inl e
         | Inr a1 \<Rightarrow>
        (case merge_address_field a1 src ''country'' of
           Inl e \<Rightarrow> Inl e
         | Inr a2 \<Rightarrow> Inr (d2 @ [(''address'', a2)])))))"

definition update_student :: "string \<Rightarrow> dict \<Rightarrow> collection \<Rightarrow> (error + response) \<times> collection" where
  "update_student id_param student_update db =
     (case validate_input_fields student_update of
        Some e \<Rightarrow> (Inl e, db)
      | None \<Rightarrow>
     (case ObjectId id_param of
        None \<Rightarrow> (Inl (Unhandled InvalidId), db)
      | Some i \<Rightarrow>
     (case find_one i db of
        None \<Rightarrow> (Inl not_found, db)
      | Some student \<Rightarrow>
     (case build_update_data student student_update of
        Inl e \<Rightarrow> (Inl (Unhandled e), db)
      | Inr update_data \<Rightarrow>
          (let (modified_count, db') = update_one i update_data db
           in if modified_count = 0 then (Inl not_found, db')
              else (Inr (Response 204 None), db'))))))"

subsection \<open>delete_student\<close>

definition delete_student :: "string \<Rightarrow> collection \<Rightarrow> (error + response) \<times> collection" where
  "delete_student id_param db =
     (case ObjectId id_param of
        None \<Rightarrow> (Inl (Unhandled InvalidId), db)
      | Some i \<Rightarrow>
          (let (deleted_count, db') = delete_one i db
           in if deleted_count = 0 then (Inl not_found, db')
              else (Inr (Response 200 (Some (JDict []))), db')))"

section \<open>The invariants of the data model\<close>

text \<open>
  What the data model asks of a stored student, as a predicate on the stored document: the
  name is a non-empty string, the age an integer of at least 0, the address a mapping with a
  non-empty string for the city and for the country.
\<close>

definition valid_student_doc :: "dict \<Rightarrow> bool" where
  "valid_student_doc doc =
     ((case map_of doc ''name'' of Some (JStr n) \<Rightarrow> n \<noteq> [] | _ \<Rightarrow> False) \<and>
      (case map_of doc ''age'' of Some (JInt a) \<Rightarrow> 0 \<le> a | _ \<Rightarrow> False) \<and>
      (case map_of doc ''address'' of
         Some (JDict ad) \<Rightarrow>
           (case map_of ad ''city'' of Some (JStr c) \<Rightarrow> c \<noteq> [] | _ \<Rightarrow> False) \<and>
           (case map_of ad ''country'' of Some (JStr k) \<Rightarrow> k \<noteq> [] | _ \<Rightarrow> False)
       | _ \<Rightarrow> False))"

section \<open>Example data\<close>

text \<open>The student, the identifier and the collections used where a property is run on an input.\<close>

definition pune_in :: json where
  "pune_in = JDict [(''city'', JStr ''Pune''), (''country'', JStr ''IN'')]"

definition ann :: dict where
  "ann = [(''name'', JStr ''Ann''), (''age'', JInt 20), (''address'', pune_in)]"

definition oid1 :: string where
  "oid1 = ''507f1f77bcf86cd799439011''"

definition student_doc :: "string \<Rightarrow> int \<Rightarrow> string \<Rightarrow> dict" where
  "student_doc n a k =
     [(''name'', JStr n), (''age'', JInt a),
      (''address'', JDict [(''city'', JStr ''Pune''), (''country'', JStr k)])]"

text \<open>A collection of 1001 students of the same country and age, under distinct identifiers.\<close>

definition hex_digit :: "nat \<Rightarrow> char" where
  "hex_digit n = ''0123456789abcdef'' ! (n mod 16)"

definition nth_oid :: "nat \<Rightarrow> oid" where
  "nth_oid n =
     replicate 21 CHR ''0'' @ [hex_digit (n div 256), hex_digit (n div 16), hex_digit n]"

definition crowded :: collection where
  "crowded = map (\<lambda>n. (nth_oid n, ann)) [0..<1001]"

definition three_students :: collection where
  "three_students =
     [(nth_oid 0, student_doc ''A'' 20 ''IN''),
      (nth_oid 1, student_doc ''B'' 25 ''IN''),
      (nth_oid 2, student_doc ''C'' 25 ''US'')]"

section \<open>Evaluation and auxiliary facts\<close>

lemmas model_defs = dict_get_def dict_index_def Address_init_def Address_to_dict_def
  Student_init_def Student_to_dict_def Student_from_dict_def
  ObjectId_def is_hex_def lower_hex_def str_oid_def
  country_matches_def number_gte_def age_gte_def matches_def find_def to_list_def find_one_def
  insert_one_def apply_set_def update_one_def delete_one_def
  not_found_def except_KeyError_ValueError_def create_student_def
  build_query_def project_def list_students_def fetch_student_def
  ALLOWED_TOP_LEVEL_FIELDS_def ALLOWED_ADDRESS_FIELDS_def
  iter_def validate_input_fields_def contains_def subscript_def setitem_def
  copy_address_def merge_address_field_def build_update_data_def update_student_def
  delete_student_def pune_in_def ann_def oid1_def valid_student_doc_def
  student_doc_def three_students_def

lemma ObjectId_oid1: "ObjectId oid1 = Some oid1"
  by (simp add: ObjectId_def is_hex_def lower_hex_def oid1_def)

lemma Student_init_raises_ValueError:
  "Student_init n a ad = Inl e \<Longrightarrow> \<exists>m. e = ValueError m"
  by (auto simp: Student_init_def Address_init_def split: if_splits json.splits sum.splits)

lemma check_top_level_bad:
  "\<exists>k\<in>set ks. k \<notin> ALLOWED_TOP_LEVEL_FIELDS \<Longrightarrow>
   \<exists>k. check_top_level ks = Some (HTTPException 400 (InvalidField k))"
  by (induction ks) auto

lemma check_top_level_cases:
  "check_top_level ks = None \<or> (\<exists>k. check_top_level ks = Some (HTTPException 400 (InvalidField k)))"
  by (induction ks) auto

lemma check_address_keys_bad:
  "\<exists>k\<in>set ks. k \<notin> ALLOWED_ADDRESS_FIELDS \<Longrightarrow>
   \<exists>k. check_address_keys (map JStr ks) = Some (HTTPException 400 (InvalidAddressField (JStr k)))"
  by (induction ks) auto

text \<open>Writing fields that already have the given values leaves the document as it is.\<close>

lemma apply_set_noop:
  "list_all (\<lambda>kv. map_of doc (fst kv) = Some (snd kv)) upd \<Longrightarrow> apply_set upd doc = doc"
  unfolding apply_set_def
  by (induction upd) (auto simp: AList.update_triv)

lemma project_all_present:
  "list_all (\<lambda>doc. map_of doc ''name'' \<noteq> None \<and> map_of doc ''age'' \<noteq> None) docs \<Longrightarrow>
   project_all docs =
     Inr (map (\<lambda>doc. JDict [(''name'', dict_get doc ''name''), (''age'', dict_get doc ''age'')]) docs)"
  by (induction docs) (auto simp: project_def dict_index_def dict_get_def)

lemma project_all_entries:
  assumes "list_all (\<lambda>entry. map_of (snd entry) ''name'' \<noteq> None \<and> map_of (snd entry) ''age'' \<noteq> None) db"
    and "set xs \<subseteq> set db"
  shows "project_all (map snd xs) =
    Inr (map (\<lambda>entry. JDict [(''name'', dict_get (snd entry) ''name''),
                              (''age'', dict_get (snd entry) ''age'')]) xs)"
proof -
  have "list_all (\<lambda>doc. map_of doc ''name'' \<noteq> None \<and> map_of doc ''age'' \<noteq> None) (map snd xs)"
    using assms unfolding list_all_iff by fastforce
  from project_all_present [OF this] show ?thesis
    by (simp add: comp_def)
qed

lemma project_all_replicate:
  "project doc = Inr p \<Longrightarrow> project_all (replicate n doc) = Inr (replicate n p)"
  by (induction n) auto

lemma crowded_find: "find \<lparr>q_country = Some ''IN'', q_age_gte = Some 18\<rparr> crowded = crowded"
  by (simp add: find_def crowded_def filter_map comp_def matches_def country_matches_def
      age_gte_def number_gte_def ann_def pune_in_def)

text \<open>
  A record that \<^verbatim>\<open>create_student\<close> stores from a body with an integer age and strings
  for city and country satisfies the invariants of the data model.
\<close>

lemma create_student_stores_valid:
  assumes "create_student new_id body db = (Inr r, db')"
    and "map_of body ''age'' = Some (JInt a)"
    and "map_of body ''address'' = Some (JDict ad)"
    and "map_of ad ''city'' = Some (JStr c)" and "map_of ad ''country'' = Some (JStr k)"
  shows "\<exists>doc. db' = db @ [(new_id, doc)] \<and> valid_student_doc doc"
  using assms
  by (cases "map_of body ''name''")
     (auto simp: create_student_def dict_index_def dict_get_def Student_init_def Address_init_def
      insert_one_def Student_to_dict_def Address_to_dict_def valid_student_doc_def
      split: if_splits json.splits)

section \<open>The domain model\<close>

text \<open>
  Claim C9. A valid Student is one the constructor returns. Taking its mapping with
  \<^verbatim>\<open>to_dict\<close> and building a Student from that mapping with \<^verbatim>\<open>from_dict\<close> succeeds
  and gives the same name, age, city and country.
\<close>

theorem from_dict_to_dict_roundtrip:
  "Student_init n a ad = Inr s \<Longrightarrow> Student_from_dict (Student_to_dict s) = Inr s"
  by (auto simp: Student_init_def Student_from_dict_def Student_to_dict_def Address_init_def
      Address_to_dict_def dict_index_def dict_get_def
      split: if_splits json.splits sum.splits option.splits)

theorem from_dict_to_dict_roundtrip_witness:
  "Student_init (JStr ''Ann'') (JInt 20) pune_in =
     Inr \<lparr>name = JStr ''Ann'', age = JInt 20,
          address = \<lparr>city = JStr ''Pune'', country = JStr ''IN''\<rparr>\<rparr> \<and>
   Student_from_dict (Student_to_dict \<lparr>name = JStr ''Ann'', age = JInt 20,
          address = \<lparr>city = JStr ''Pune'', country = JStr ''IN''\<rparr>\<rparr>) =
     Inr \<lparr>name = JStr ''Ann'', age = JInt 20,
          address = \<lparr>city = JStr ''Pune'', country = JStr ''IN''\<rparr>\<rparr>"
proof -
  have h: "Student_init (JStr ''Ann'') (JInt 20) pune_in =
     Inr \<lparr>name = JStr ''Ann'', age = JInt 20,
          address = \<lparr>city = JStr ''Pune'', country = JStr ''IN''\<rparr>\<rparr>"
    by (simp add: Student_init_def Address_init_def dict_get_def pune_in_def)
  from from_dict_to_dict_roundtrip [OF h] h show ?thesis
    by simp
qed

text \<open>
  Claim C6. The constructor raises ValueError when the name is empty, when the age is
  negative, and when the city under \<^verbatim>\<open>address\<close> is empty; it returns the Student on a
  non-empty name, an age of at least 0 and a non-empty city and country. In
  \<^verbatim>\<open>create_student\<close>, whenever building the Student from the body fails (a missing key or
  a rejected value) the handler raises the 400 error and the collection is the one it was
  given; when it succeeds, exactly the Student's mapping is appended.
\<close>

theorem construct_and_create:
  "(\<exists>m. Student_init (JStr []) a ad = Inl (ValueError m)) \<and>
   (i < 0 \<longrightarrow> (\<exists>m. Student_init n (JInt i) ad = Inl (ValueError m))) \<and>
   (map_of d ''city'' = Some (JStr []) \<longrightarrow> (\<exists>m. Student_init n a (JDict d) = Inl (ValueError m))) \<and>
   (nm \<noteq> [] \<and> 0 \<le> j \<and> c \<noteq> [] \<and> k \<noteq> [] \<and>
    map_of d' ''city'' = Some (JStr c) \<and> map_of d' ''country'' = Some (JStr k) \<longrightarrow>
      Student_init (JStr nm) (JInt j) (JDict d') =
        Inr \<lparr>name = JStr nm, age = JInt j, address = \<lparr>city = JStr c, country = JStr k\<rparr>\<rparr>) \<and>
   (Student_from_dict body = Inl e \<longrightarrow>
      (\<exists>m. create_student new_id body db = (Inl (HTTPException 400 (Text m)), db))) \<and>
   (Student_from_dict body = Inr s \<longrightarrow>
      create_student new_id body db =
        (Inr (Response 201 (Some (JDict [(''id'', JStr new_id)]))),
         db @ [(new_id, Student_to_dict s)]))"
proof -
  have 1: "\<exists>m. Student_init (JStr []) a ad = Inl (ValueError m)"
    by (simp add: Student_init_def)
  have 2: "i < 0 \<longrightarrow> (\<exists>m. Student_init n (JInt i) ad = Inl (ValueError m))"
    by (simp add: Student_init_def)
  have 3: "map_of d ''city'' = Some (JStr []) \<longrightarrow>
      (\<exists>m. Student_init n a (JDict d) = Inl (ValueError m))"
    by (simp add: Student_init_def Address_init_def dict_get_def)
  have 4: "nm \<noteq> [] \<and> 0 \<le> j \<and> c \<noteq> [] \<and> k \<noteq> [] \<and>
    map_of d' ''city'' = Some (JStr c) \<and> map_of d' ''country'' = Some (JStr k) \<longrightarrow>
      Student_init (JStr nm) (JInt j) (JDict d') =
        Inr \<lparr>name = JStr nm, age = JInt j, address = \<lparr>city = JStr c, country = JStr k\<rparr>\<rparr>"
    by (simp add: Student_init_def Address_init_def dict_get_def)
  have 5: "Student_from_dict body = Inl e \<longrightarrow>
      (\<exists>m. create_student new_id body db = (Inl (HTTPException 400 (Text m)), db))"
    by (auto simp: Student_from_dict_def create_student_def dict_index_def
        except_KeyError_ValueError_def split: option.splits sum.splits
        dest: Student_init_raises_ValueError)
  have 6: "Student_from_dict body = Inr s \<longrightarrow>
      create_student new_id body db =
        (Inr (Response 201 (Some (JDict [(''id'', JStr new_id)]))),
         db @ [(new_id, Student_to_dict s)])"
    by (auto simp: Student_from_dict_def create_student_def dict_index_def insert_one_def
        str_oid_def split: option.splits sum.splits)
  from 1 2 3 4 5 6 show ?thesis
    by blast
qed

theorem construct_and_create_witness:
  "Student_init (JStr ''Ann'') (JInt (- 1)) pune_in =
     Inl (ValueError ''Age must be a non-negative integer'') \<and>
   Student_init (JStr ''Ann'') (JInt 5) (JDict [(''city'', JStr []), (''country'', JStr ''B'')]) =
     Inl (ValueError ''City and country are required'') \<and>
   Student_init (JStr ''Ann'') (JInt 5) (JDict [(''city'', JStr ''A''), (''country'', JStr ''B'')]) =
     Inr \<lparr>name = JStr ''Ann'', age = JInt 5, address = \<lparr>city = JStr ''A'', country = JStr ''B''\<rparr>\<rparr> \<and>
   Student_from_dict [(''name'', JStr []), (''age'', JInt 5), (''address'', pune_in)] =
     Inl (ValueError ''Name must be a non-empty string'') \<and>
   create_student oid1 [(''name'', JStr []), (''age'', JInt 5), (''address'', pune_in)] [(oid1, ann)] =
     (Inl (HTTPException 400 (Text ''Name must be a non-empty string'')), [(oid1, ann)]) \<and>
   Student_from_dict ann =
     Inr \<lparr>name = JStr ''Ann'', age = JInt 20,
          address = \<lparr>city = JStr ''Pune'', country = JStr ''IN''\<rparr>\<rparr> \<and>
   create_student oid1 ann [] = (Inr (Response 201 (Some (JDict [(''id'', JStr oid1)]))), [(oid1, ann)])"
  using construct_and_create [of "JInt 5" pune_in "- 1" "JStr ''Ann''"
      "[(''city'', JStr []), (''country'', JStr ''B'')]" "''Ann''" 5 "''A''" "''B''"
      "[(''city'', JStr ''A''), (''country'', JStr ''B'')]"
      "[(''name'', JStr []), (''age'', JInt 5), (''address'', pune_in)]"
      "ValueError ''Name must be a non-empty string''" oid1 "[(oid1, ann)]"]
    construct_and_create [of "JInt 5" pune_in "- 1" "JStr ''Ann''"
      "[(''city'', JStr []), (''country'', JStr ''B'')]" "''Ann''" 5 "''A''" "''B''"
      "[(''city'', JStr ''A''), (''country'', JStr ''B'')]"
      ann "ValueError []" oid1 "[]"
      "\<lparr>name = JStr ''Ann'', age = JInt 20,
          address = \<lparr>city = JStr ''Pune'', country = JStr ''IN''\<rparr>\<rparr>"]
  by (simp add: model_defs)

section \<open>List\<close>

text \<open>
  Claim C10. A \<^verbatim>\<open>country\<close> parameter that is the empty string adds no country filter:
  the answer is the one of the same call without the parameter. The age filter does not
  depend on it and is applied for every given bound, 0 included: the answer is the unfiltered
  listing of the records whose age is at least the bound.
\<close>

theorem empty_country_is_no_filter:
  "list_students (Some []) age_param db = list_students None age_param db \<and>
   list_students (Some []) (Some a) db =
     list_students None None (filter (\<lambda>entry. age_gte (snd entry) a) db) \<and>
   list_students (Some []) (Some 0) db =
     list_students None None (filter (\<lambda>entry. age_gte (snd entry) 0) db)"
  by (simp add: list_students_def build_query_def find_def matches_def)

theorem empty_country_is_no_filter_witness:
  "list_students (Some []) (Some 0)
     [(nth_oid 0, student_doc ''A'' 20 ''IN''), (nth_oid 1, student_doc ''B'' (- 1) ''IN''),
      (nth_oid 2, student_doc ''C'' 0 ''US'')] =
   Inr (Response 200 (Some (JDict [(''data'',
     JList [JDict [(''name'', JStr ''A''), (''age'', JInt 20)],
            JDict [(''name'', JStr ''C''), (''age'', JInt 0)]])])))"
  using empty_country_is_no_filter [of "Some 0"
      "[(nth_oid 0, student_doc ''A'' 20 ''IN''), (nth_oid 1, student_doc ''B'' (- 1) ''IN''),
        (nth_oid 2, student_doc ''C'' 0 ''US'')]" 0]
  by (simp add: model_defs)

text \<open>
  Claim C7, as the code has it. On a collection whose documents all carry a name and an age:
  with a non-empty country and an age bound, the answer is the \<open>{name, age}\<close> projection of
  the first 1000, in storage order, of the records whose country is the given one and whose
  age is at least the bound; with no parameter it is the projection of the first 1000
  records. The cap of 1000 holds with and without filters.
\<close>

theorem list_students_filters:
  assumes "list_all (\<lambda>entry. map_of (snd entry) ''name'' \<noteq> None \<and>
                              map_of (snd entry) ''age'' \<noteq> None) db"
  shows "(c \<noteq> [] \<longrightarrow> list_students (Some c) (Some a) db =
      Inr (Response 200 (Some (JDict [(''data'', JList
        (map (\<lambda>entry. JDict [(''name'', dict_get (snd entry) ''name''),
                               (''age'', dict_get (snd entry) ''age'')])
          (take 1000 (filter (\<lambda>entry. country_matches (snd entry) c \<and> age_gte (snd entry) a)
             db))))])))) \<and>
    list_students None None db =
      Inr (Response 200 (Some (JDict [(''data'', JList
        (map (\<lambda>entry. JDict [(''name'', dict_get (snd entry) ''name''),
                               (''age'', dict_get (snd entry) ''age'')])
          (take 1000 db)))])))"
proof -
  have f: "set (take 1000 (filter P db)) \<subseteq> set db" for P
    using set_take_subset [of 1000 "filter P db"] by auto
  have t: "set (take 1000 db) \<subseteq> set db"
    by (rule set_take_subset)
  show ?thesis
    using project_all_entries [OF assms f] project_all_entries [OF assms t]
    by (simp add: list_students_def build_query_def find_def matches_def to_list_def)
qed

theorem list_students_filters_witness:
  "list_all (\<lambda>entry. map_of (snd entry) ''name'' \<noteq> None \<and>
                      map_of (snd entry) ''age'' \<noteq> None) three_students \<and>
   list_students (Some ''IN'') (Some 22) three_students =
     Inr (Response 200 (Some (JDict [(''data'',
       JList [JDict [(''name'', JStr ''B''), (''age'', JInt 25)]])]))) \<and>
   list_students None None three_students =
     Inr (Response 200 (Some (JDict [(''data'',
       JList [JDict [(''name'', JStr ''A''), (''age'', JInt 20)],
              JDict [(''name'', JStr ''B''), (''age'', JInt 25)],
              JDict [(''name'', JStr ''C''), (''age'', JInt 25)]])])))"
proof -
  have h: "list_all (\<lambda>entry. map_of (snd entry) ''name'' \<noteq> None \<and>
                      map_of (snd entry) ''age'' \<noteq> None) three_students"
    by (simp add: three_students_def student_doc_def)
  from list_students_filters [OF h, of "''IN''" 22] h show ?thesis
    by (simp add: three_students_def student_doc_def dict_get_def country_matches_def
        age_gte_def number_gte_def)
qed

text \<open>
  Claim C7 as it is stated fails on the collection \<open>crowded\<close>: all of its 1001 records are of
  country IN and of age 20, so all of them pass both filters of \<^verbatim>\<open>country=IN&age=18\<close>,
  and the answer holds 1000 of them.
\<close>

theorem list_students_cap_counterexample:
  "length (find \<lparr>q_country = Some ''IN'', q_age_gte = Some 18\<rparr> crowded) = 1001 \<and>
   list_students (Some ''IN'') (Some 18) crowded =
     Inr (Response 200 (Some (JDict [(''data'',
       JList (replicate 1000 (JDict [(''name'', JStr ''Ann''), (''age'', JInt 20)])))])))"
proof -
  have l: "length crowded = 1001"
    by (simp add: crowded_def)
  have p: "project ann = Inr (JDict [(''name'', JStr ''Ann''), (''age'', JInt 20)])"
    by (simp add: project_def dict_index_def ann_def)
  have t: "map snd (take 1000 crowded) = replicate 1000 ann"
    by (simp add: crowded_def take_map comp_def map_replicate_const)
  show ?thesis
    using l t project_all_replicate [OF p, of 1000]
    by (simp add: list_students_def build_query_def crowded_find to_list_def)
qed

section \<open>Update\<close>

text \<open>
  Claim C5. If the body of an update has a top-level key outside \<open>{name, age, address}\<close>, or
  its \<^verbatim>\<open>address\<close> is a mapping with a key outside \<open>{city, country}\<close>, the handler raises
  the 400 error whatever the identifier and the collection are (nothing has been read yet),
  and the collection is unchanged.
\<close>

theorem update_rejects_unknown_fields:
  assumes "(\<exists>k\<in>set (map fst body). k \<notin> ALLOWED_TOP_LEVEL_FIELDS) \<or>
           (\<exists>ad. map_of body ''address'' = Some (JDict ad) \<and>
                 (\<exists>k\<in>set (map fst ad). k \<notin> ALLOWED_ADDRESS_FIELDS))"
  shows "\<exists>d. update_student id_param body db = (Inl (HTTPException 400 d), db)"
proof -
  have "\<exists>d. validate_input_fields body = Some (HTTPException 400 d)"
  proof (cases "check_top_level (map fst body)")
    case (Some e)
    with check_top_level_cases [of "map fst body"] show ?thesis
      by (auto simp: validate_input_fields_def)
  next
    case None
    with check_top_level_bad [of "map fst body"] assms
    obtain ad where ad: "map_of body ''address'' = Some (JDict ad)"
      and bad: "\<exists>k\<in>set (map fst ad). k \<notin> ALLOWED_ADDRESS_FIELDS"
      by fastforce
    from check_address_keys_bad [OF bad] obtain k where
      "check_address_keys (map JStr (map fst ad)) =
         Some (HTTPException 400 (InvalidAddressField (JStr k)))"
      by blast
    with None ad show ?thesis
      by (simp add: validate_input_fields_def iter_def comp_def)
  qed
  then show ?thesis
    by (auto simp: update_student_def)
qed

theorem update_rejects_unknown_fields_witness:
  "(\<exists>k\<in>set (map fst [(''nickname'', JStr ''x'')]). k \<notin> ALLOWED_TOP_LEVEL_FIELDS) \<and>
   (\<exists>d. update_student oid1 [(''nickname'', JStr ''x'')] [(oid1, ann)] =
      (Inl (HTTPException 400 d), [(oid1, ann)])) \<and>
   (\<exists>d. update_student oid1 [(''address'', JDict [(''zip'', JStr ''x'')])] [(oid1, ann)] =
      (Inl (HTTPException 400 d), [(oid1, ann)]))"
proof -
  have h1: "(\<exists>k\<in>set (map fst [(''nickname'', JStr ''x'')]). k \<notin> ALLOWED_TOP_LEVEL_FIELDS) \<or>
           (\<exists>ad. map_of [(''nickname'', JStr ''x'')] ''address'' = Some (JDict ad) \<and>
                 (\<exists>k\<in>set (map fst ad). k \<notin> ALLOWED_ADDRESS_FIELDS))"
    by (simp add: ALLOWED_TOP_LEVEL_FIELDS_def)
  have h2: "(\<exists>k\<in>set (map fst [(''address'', JDict [(''zip'', JStr ''x'')])]).
               k \<notin> ALLOWED_TOP_LEVEL_FIELDS) \<or>
           (\<exists>ad. map_of [(''address'', JDict [(''zip'', JStr ''x'')])] ''address'' = Some (JDict ad) \<and>
                 (\<exists>k\<in>set (map fst ad). k \<notin> ALLOWED_ADDRESS_FIELDS))"
    by (simp add: ALLOWED_ADDRESS_FIELDS_def)
  from update_rejects_unknown_fields [OF h1, of oid1 "[(oid1, ann)]"]
    update_rejects_unknown_fields [OF h2, of oid1 "[(oid1, ann)]"]
  show ?thesis
    by (simp add: ALLOWED_TOP_LEVEL_FIELDS_def)
qed

text \<open>
  Claim C4. Once the field checks have passed, the record has been loaded and the data to
  write has been assembled, the answer depends on the write alone: the not-found error when
  the write reports no modified document, 204 without a body otherwise, and in both cases the
  collection is the one the write leaves. A merge that gives every written field the value
  it already has is such a write without modification, so it ends in not-found although the
  record exists; a merge that changes the document ends in 204.
\<close>

theorem update_not_found_iff_unmodified:
  assumes "validate_input_fields body = None" and "ObjectId id_param = Some i"
    and "find_one i db = Some student" and "build_update_data student body = Inr upd"
  shows "update_student id_param body db =
           (if fst (update_one i upd db) = 0 then Inl (HTTPException 404 (Text ''Student not found''))
            else Inr (Response 204 None),
            snd (update_one i upd db)) \<and>
         (list_all (\<lambda>kv. map_of student (fst kv) = Some (snd kv)) upd \<longrightarrow>
            update_student id_param body db =
              (Inl (HTTPException 404 (Text ''Student not found'')), db)) \<and>
         (apply_set upd student \<noteq> student \<longrightarrow>
            update_student id_param body db =
              (Inr (Response 204 None), AList.update i (apply_set upd student) db))"
  using assms
  by (auto simp: update_student_def update_one_def find_one_def not_found_def apply_set_noop
      split: prod.splits)

theorem update_not_found_iff_unmodified_witness:
  "validate_input_fields [(''age'', JInt 20)] = None \<and> ObjectId oid1 = Some oid1 \<and>
   find_one oid1 [(oid1, ann)] = Some ann \<and>
   build_update_data ann [(''age'', JInt 20)] = Inr [(''age'', JInt 20)] \<and>
   build_update_data ann [(''age'', JInt 21)] = Inr [(''age'', JInt 21)] \<and>
   update_student oid1 [(''age'', JInt 20)] [(oid1, ann)] =
     (Inl (HTTPException 404 (Text ''Student not found'')), [(oid1, ann)]) \<and>
   update_student oid1 [(''age'', JInt 21)] [(oid1, ann)] =
     (Inr (Response 204 None),
      [(oid1, [(''name'', JStr ''Ann''), (''age'', JInt 21), (''address'', pune_in)])])"
proof -
  have v0: "validate_input_fields [(''age'', JInt 20)] = None"
    and v1: "validate_input_fields [(''age'', JInt 21)] = None"
    by (simp_all add: validate_input_fields_def ALLOWED_TOP_LEVEL_FIELDS_def)
  have f: "find_one oid1 [(oid1, ann)] = Some ann"
    by (simp add: find_one_def)
  have b0: "build_update_data ann [(''age'', JInt 20)] = Inr [(''age'', JInt 20)]"
    and b1: "build_update_data ann [(''age'', JInt 21)] = Inr [(''age'', JInt 21)]"
    by (simp_all add: build_update_data_def)
  from update_not_found_iff_unmodified [OF v0 ObjectId_oid1 f b0]
    update_not_found_iff_unmodified [OF v1 ObjectId_oid1 f b1]
    v0 f b0 b1 ObjectId_oid1
  show ?thesis
    by (simp add: update_one_def apply_set_def ann_def)
qed



text \<open>
  Claim C3 does not hold of the code: \<^verbatim>\<open>update_student\<close> checks the names of the fields
  and writes their values as they come, without the checks of the Student constructor that
  \<^verbatim>\<open>create_student\<close> goes through. Here a student is created and then updated with the
  age -5: the update answers 204 and the stored record has a negative age.
\<close>

theorem update_stores_invalid_age:
  "create_student oid1 ann [] =
     (Inr (Response 201 (Some (JDict [(''id'', JStr oid1)]))), [(oid1, ann)]) \<and>
   valid_student_doc ann \<and>
   update_student oid1 [(''age'', JInt (- 5))] [(oid1, ann)] =
     (Inr (Response 204 None),
      [(oid1, [(''name'', JStr ''Ann''), (''age'', JInt (- 5)), (''address'', pune_in)])]) \<and>
   \<not> valid_student_doc [(''name'', JStr ''Ann''), (''age'', JInt (- 5)), (''address'', pune_in)]"
  by (simp add: model_defs)

section \<open>Identifiers\<close>

text \<open>
  Claim C8, as the code has it. For a well-formed identifier that matches no stored record,
  fetch and delete raise the 404 error with the detail "Student not found", and so does update
  for a body that has passed its field checks (they run before the record is looked up);
  delete and update leave the collection as it was. After a delete on a collection with one
  record per identifier, a second delete of the same identifier raises the same error and
  changes nothing.
\<close>

theorem not_found_consistency:
  assumes "ObjectId id_param = Some i"
  shows "(find_one i db = None \<longrightarrow>
            fetch_student id_param db = Inl (HTTPException 404 (Text ''Student not found'')) \<and>
            delete_student id_param db = (Inl (HTTPException 404 (Text ''Student not found'')), db) \<and>
            (validate_input_fields body = None \<longrightarrow>
               update_student id_param body db =
                 (Inl (HTTPException 404 (Text ''Student not found'')), db))) \<and>
         (distinct (map fst db) \<longrightarrow>
            delete_student id_param (snd (delete_student id_param db)) =
              (Inl (HTTPException 404 (Text ''Student not found'')),
               snd (delete_student id_param db)))"
proof -
  have gone: "map_of (snd (delete_one i db)) i = None" if "distinct (map fst db)"
    using that by (auto simp: delete_one_def AList.map_of_delete_aux split: option.splits)
  show ?thesis
    using assms gone
    by (auto simp: fetch_student_def delete_student_def update_student_def delete_one_def
        find_one_def not_found_def split: option.splits)
qed

theorem not_found_consistency_witness:
  "ObjectId oid1 = Some oid1 \<and> find_one oid1 [] = None \<and>
   validate_input_fields [(''age'', JInt 21)] = None \<and> distinct (map fst [(oid1, ann)]) \<and>
   fetch_student oid1 [] = Inl (HTTPException 404 (Text ''Student not found'')) \<and>
   delete_student oid1 [] = (Inl (HTTPException 404 (Text ''Student not found'')), []) \<and>
   update_student oid1 [(''age'', JInt 21)] [] =
     (Inl (HTTPException 404 (Text ''Student not found'')), []) \<and>
   delete_student oid1 [(oid1, ann)] = (Inr (Response 200 (Some (JDict []))), []) \<and>
   delete_student oid1 (snd (delete_student oid1 [(oid1, ann)])) =
     (Inl (HTTPException 404 (Text ''Student not found'')), [])"
proof -
  have f: "find_one oid1 [] = None"
    by (simp add: find_one_def)
  have v: "validate_input_fields [(''age'', JInt 21)] = None"
    by (simp add: validate_input_fields_def ALLOWED_TOP_LEVEL_FIELDS_def)
  have d: "delete_student oid1 [(oid1, ann)] = (Inr (Response 200 (Some (JDict []))), [])"
    by (simp add: delete_student_def delete_one_def ObjectId_oid1)
  from not_found_consistency [OF ObjectId_oid1, of "[]" "[(''age'', JInt 21)]"]
    not_found_consistency [OF ObjectId_oid1, of "[(oid1, ann)]" "[(''age'', JInt 21)]"]
    f v d ObjectId_oid1
  show ?thesis
    by simp
qed

text \<open>
  Claim C8 as it is stated fails for update: the identifier \<open>oid1\<close> is well-formed and the
  collection is empty, so it matches no record, but the body \<open>{nickname: x}\<close> has a field
  that is not allowed, and the field checks, which come first, end the request with 400.
\<close>

theorem not_found_update_counterexample:
  "ObjectId oid1 = Some oid1 \<and> find_one oid1 [] = None \<and>
   update_student oid1 [(''nickname'', JStr ''x'')] [] =
     (Inl (HTTPException 400 (InvalidField ''nickname'')), [])"
  by (simp add: ObjectId_oid1 find_one_def update_student_def validate_input_fields_def
      ALLOWED_TOP_LEVEL_FIELDS_def)

text \<open>
  Claim C2, as the code has it. No handler guards the construction of the identifier: for a
  malformed identifier, fetch and delete, and update once the body has passed its field
  checks, end with the exception \<^verbatim>\<open>InvalidId\<close> unhandled (a server error, not a 400
  response), and the collection is unchanged.
\<close>

theorem malformed_id_unhandled:
  assumes "ObjectId id_param = None"
  shows "fetch_student id_param db = Inl (Unhandled InvalidId) \<and>
         delete_student id_param db = (Inl (Unhandled InvalidId), db) \<and>
         (validate_input_fields body = None \<longrightarrow>
            update_student id_param body db = (Inl (Unhandled InvalidId), db))"
  using assms
  by (auto simp: fetch_student_def delete_student_def update_student_def)

theorem malformed_id_unhandled_witness:
  "ObjectId ''42'' = None \<and> validate_input_fields [(''age'', JInt 21)] = None \<and>
   fetch_student ''42'' [(oid1, ann)] = Inl (Unhandled InvalidId) \<and>
   delete_student ''42'' [(oid1, ann)] = (Inl (Unhandled InvalidId), [(oid1, ann)]) \<and>
   update_student ''42'' [(''age'', JInt 21)] [(oid1, ann)] =
     (Inl (Unhandled InvalidId), [(oid1, ann)])"
proof -
  have m: "ObjectId ''42'' = None"
    by (simp add: ObjectId_def)
  have v: "validate_input_fields [(''age'', JInt 21)] = None"
    by (simp add: validate_input_fields_def ALLOWED_TOP_LEVEL_FIELDS_def)
  from malformed_id_unhandled [OF m, of "[(oid1, ann)]" "[(''age'', JInt 21)]"] m v
  show ?thesis
    by simp
qed

text \<open>
  Claim C2 as it is stated asks for a 400 response. The identifier \<open>not-an-id\<close> is malformed,
  and the three handlers end with the unhandled exception instead.
\<close>

theorem malformed_id_counterexample:
  "ObjectId ''not-an-id'' = None \<and>
   fetch_student ''not-an-id'' [(oid1, ann)] = Inl (Unhandled InvalidId) \<and>
   delete_student ''not-an-id'' [(oid1, ann)] = (Inl (Unhandled InvalidId), [(oid1, ann)]) \<and>
   update_student ''not-an-id'' [(''name'', JStr ''Bob'')] [(oid1, ann)] =
     (Inl (Unhandled InvalidId), [(oid1, ann)])"
  by (simp add: fetch_student_def delete_student_def update_student_def ObjectId_def
      validate_input_fields_def ALLOWED_TOP_LEVEL_FIELDS_def)

end
